theory Spec2Isabelle
  imports Complex_Main
begin

section \<open>Times of day\<close>

text \<open>
  The models (\<^verbatim>\<open>src/models/Appointment.js\<close>, \<^verbatim>\<open>src/models/MedicationHistory.js\<close>)
  store a time of day as a string and validate it with the regular expression
  \<^verbatim>\<open>/^([0-1]?[0-9]|2[0-3]):[0-5][0-9]$/\<close>. Every consumer converts it with
  \<^verbatim>\<open>const [h, m] = time.split(':').map(Number); h * 60 + m\<close>.
\<close>

definition is_digit :: "char \<Rightarrow> bool" where
  "is_digit c = (48 \<le> (of_char c :: nat) \<and> (of_char c :: nat) \<le> 57)"

definition digit_value :: "char \<Rightarrow> nat" where
  "digit_value c = of_char c - 48"

text \<open>The schema validator for \<^verbatim>\<open>time\<close>, \<^verbatim>\<open>scheduledTime\<close> and the entries of
  \<^verbatim>\<open>timesPerDay\<close>: the regular expression above, case by case on the length.\<close>

fun valid_time :: "string \<Rightarrow> bool" where
  "valid_time [h, c, m1, m2] =
     (is_digit h \<and> c = CHR '':'' \<and> is_digit m1 \<and> digit_value m1 \<le> 5 \<and> is_digit m2)"
| "valid_time [h1, h2, c, m1, m2] =
     (((is_digit h1 \<and> digit_value h1 \<le> 1 \<and> is_digit h2) \<or>
       (h1 = CHR ''2'' \<and> is_digit h2 \<and> digit_value h2 \<le> 3)) \<and>
      c = CHR '':'' \<and> is_digit m1 \<and> digit_value m1 \<le> 5 \<and> is_digit m2)"
| "valid_time _ = False"

text \<open>\<^verbatim>\<open>String.prototype.split(':')\<close>: the pieces between the colons; the empty string
  gives one empty piece.\<close>

fun split_colon :: "string \<Rightarrow> string list" where
  "split_colon [] = [[]]"
| "split_colon (c # cs) =
     (if c = CHR '':'' then [] # split_colon cs
      else (case split_colon cs of
              w # ws \<Rightarrow> (c # w) # ws
            | [] \<Rightarrow> [[c]]))"

text \<open>
  \<^verbatim>\<open>Number(s)\<close> on a piece of a time string. A string of decimal digits converts to
  its value (the empty string to 0); \<open>None\<close> is \<^verbatim>\<open>NaN\<close>. Pieces that are not plain
  digit strings are outside the validated format; they are treated as \<^verbatim>\<open>NaN\<close>, and
  every theorem below that reads a time assumes \<open>valid_time\<close>.
\<close>

definition Number :: "string \<Rightarrow> int option" where
  "Number s =
     (if list_all is_digit s
      then Some (int (foldl (\<lambda>acc c. 10 * acc + digit_value c) 0 s))
      else None)"

text \<open>\<^verbatim>\<open>const [h, m] = t.split(':').map(Number); h * 60 + m\<close>. A missing second piece
  is \<^verbatim>\<open>undefined\<close>, and the sum is \<^verbatim>\<open>NaN\<close>.\<close>

definition time_minutes :: "string \<Rightarrow> int option" where
  "time_minutes t =
     (case map Number (split_colon t) of
        Some h # Some m # _ \<Rightarrow> Some (h * 60 + m)
      | _ \<Rightarrow> None)"

text \<open>
  The comparison \<^verbatim>\<open>Math.abs(schedMinutes - currMinutes) <= tolerance\<close>. It occurs with
  the literal 2 in the reminder pass (\<^verbatim>\<open>scheduler.js\<close>, lines 47-56), with the literal 5
  in \<^verbatim>\<open>shouldTakeAtTime\<close> and with the parameter \<^verbatim>\<open>toleranceMinutes\<close> in
  \<^verbatim>\<open>wasOnTime\<close>. A comparison with \<^verbatim>\<open>NaN\<close> is false.
\<close>

definition time_window_matches :: "int \<Rightarrow> string \<Rightarrow> string \<Rightarrow> bool" where
  "time_window_matches tolerance scheduledTime currentTime =
     (case (time_minutes scheduledTime, time_minutes currentTime) of
        (Some schedMinutes, Some currMinutes) \<Rightarrow> \<bar>schedMinutes - currMinutes\<bar> \<le> tolerance
      | _ \<Rightarrow> False)"

text \<open>\<^verbatim>\<open>scheduler.js\<close>, lines 47-56: \<^verbatim>\<open>medication.timesPerDay.some(...)\<close> with the
  2 minute tolerance.\<close>

definition shouldRemind :: "string list \<Rightarrow> string \<Rightarrow> bool" where
  "shouldRemind timesPerDay currentTime =
     list_ex (\<lambda>scheduledTime. time_window_matches 2 scheduledTime currentTime) timesPerDay"

text \<open>\<^verbatim>\<open>medicationSchema.methods.shouldTakeAtTime\<close>: the same test with 5 minutes.\<close>

definition shouldTakeAtTime :: "string list \<Rightarrow> string \<Rightarrow> bool" where
  "shouldTakeAtTime timesPerDay timeString =
     list_ex (\<lambda>scheduledTime. time_window_matches 5 scheduledTime timeString) timesPerDay"

text \<open>The minutes since midnight that a validated time string denotes, read off the
  two shapes the format allows (\<^verbatim>\<open>H:MM\<close> and \<^verbatim>\<open>HH:MM\<close>). This is the specification's
  conversion; \<open>time_minutes\<close> above is the code's.\<close>

fun minutes_since_midnight :: "string \<Rightarrow> int" where
  "minutes_since_midnight [h, c, m1, m2] =
     int (60 * digit_value h + (10 * digit_value m1 + digit_value m2))"
| "minutes_since_midnight [h1, h2, c, m1, m2] =
     int (60 * (10 * digit_value h1 + digit_value h2) + (10 * digit_value m1 + digit_value m2))"
| "minutes_since_midnight _ = 0"

text \<open>\<^verbatim>\<open>moment().format('HH:mm')\<close> for a minute of the day: two digits each.\<close>

definition digit_char :: "nat \<Rightarrow> char" where
  "digit_char d = ''0123456789'' ! d"

definition format_HHmm :: "nat \<Rightarrow> string" where
  "format_HHmm minute =
     [digit_char (minute div 60 div 10), digit_char (minute div 60 mod 10), CHR '':'',
      digit_char (minute mod 60 div 10), digit_char (minute mod 60 mod 10)]"

section \<open>Dates\<close>

text \<open>
  A JavaScript \<^verbatim>\<open>Date\<close> is a number of milliseconds. The model reads it in the
  server's local time and takes the local offset as fixed (no daylight saving), so a
  calendar day is a block of 86400000 milliseconds.
\<close>

type_synonym date = int

definition ms_per_minute :: int where
  "ms_per_minute = 60000"

definition ms_per_day :: int where
  "ms_per_day = 86400000"

text \<open>\<^verbatim>\<open>d.setHours(0, 0, 0, 0)\<close>.\<close>

definition start_of_day :: "date \<Rightarrow> date" where
  "start_of_day d = d - d mod ms_per_day"

text \<open>\<^verbatim>\<open>d.setDate(d.getDate() + n)\<close>.\<close>

definition add_days :: "date \<Rightarrow> int \<Rightarrow> date" where
  "add_days d n = d + n * ms_per_day"

text \<open>\<^verbatim>\<open>moment(a).isSame(b, 'day')\<close>.\<close>

definition same_day :: "date \<Rightarrow> date \<Rightarrow> bool" where
  "same_day a b = (a div ms_per_day = b div ms_per_day)"

text \<open>\<^verbatim>\<open>d.getHours() * 60 + d.getMinutes()\<close>.\<close>

definition minute_of_day :: "date \<Rightarrow> nat" where
  "minute_of_day d = nat (d mod ms_per_day div ms_per_minute)"

text \<open>\<^verbatim>\<open>d.setHours(hours, minutes)\<close>: the seconds and milliseconds of \<open>d\<close> stay.\<close>

definition setHours :: "date \<Rightarrow> int \<Rightarrow> int \<Rightarrow> date" where
  "setHours d hours minutes =
     start_of_day d + (hours * 60 + minutes) * ms_per_minute + d mod ms_per_minute"

section \<open>Appointments and the conflict check\<close>

datatype appointment_status = Scheduled | Confirmed | Completed | Cancelled | Rescheduled | NoShow

record appointment =
  appointment_id :: nat
  doctorId :: nat
  date :: date
  time :: string
  duration :: int
  status :: appointment_status

text \<open>\<^verbatim>\<open>a < b\<close> on numbers that may be \<^verbatim>\<open>NaN\<close>.\<close>

fun js_less :: "int option \<Rightarrow> int option \<Rightarrow> bool" where
  "js_less (Some a) (Some b) = (a < b)"
| "js_less _ _ = False"

text \<open>\<^verbatim>\<open>a + n\<close> where \<open>a\<close> may be \<^verbatim>\<open>NaN\<close>.\<close>

definition js_plus :: "int option \<Rightarrow> int \<Rightarrow> int option" where
  "js_plus a n = map_option (\<lambda>x. x + n) a"

text \<open>The query of \<^verbatim>\<open>hasConflict\<close> (\<^verbatim>\<open>Appointment.js\<close>, lines 225-235): same doctor,
  date within the day, status scheduled or confirmed, and, when \<^verbatim>\<open>excludeId\<close> is
  given, another identity.\<close>

definition conflict_query :: "nat \<Rightarrow> date \<Rightarrow> nat option \<Rightarrow> appointment \<Rightarrow> bool" where
  "conflict_query doctor d excludeId a =
     (let appointmentDate = start_of_day d;
          nextDay = add_days appointmentDate 1
      in doctorId a = doctor \<and>
         appointmentDate \<le> date a \<and> date a < nextDay \<and>
         (status a = Scheduled \<or> status a = Confirmed) \<and>
         (case excludeId of None \<Rightarrow> True | Some e \<Rightarrow> appointment_id a \<noteq> e))"

text \<open>The loop of lines 237-246.\<close>

fun conflict_loop :: "int option \<Rightarrow> int option \<Rightarrow> appointment list \<Rightarrow> bool" where
  "conflict_loop startMinutes endMinutes [] = False"
| "conflict_loop startMinutes endMinutes (a # existingAppointments) =
     (let existingStart = time_minutes (time a);
          existingEnd = js_plus existingStart (duration a)
      in if js_less startMinutes existingEnd \<and> js_less existingStart endMinutes then True
         else conflict_loop startMinutes endMinutes existingAppointments)"

text \<open>\<^verbatim>\<open>appointmentSchema.statics.hasConflict\<close>, over the stored appointments.\<close>

definition hasConflict ::
  "appointment list \<Rightarrow> nat \<Rightarrow> date \<Rightarrow> string \<Rightarrow> int \<Rightarrow> nat option \<Rightarrow> bool" where
  "hasConflict appointments doctor d t dur excludeId =
     (let startMinutes = time_minutes t;
          endMinutes = js_plus startMinutes dur;
          existingAppointments = filter (conflict_query doctor d excludeId) appointments
      in conflict_loop startMinutes endMinutes existingAppointments)"

text \<open>The overlap of two half-open intervals, as the specification states it.\<close>

definition intervals_overlap :: "int \<Rightarrow> int \<Rightarrow> int \<Rightarrow> int \<Rightarrow> bool" where
  "intervals_overlap startA endA startB endB = (startA < endB \<and> endA > startB)"

text \<open>\<^verbatim>\<open>markCompleted\<close> and \<^verbatim>\<open>cancel\<close> (lines 252-266) set the status whatever it was.\<close>

definition markCompleted :: "appointment \<Rightarrow> appointment" where
  "markCompleted a = a\<lparr>status := Completed\<rparr>"

definition cancel :: "appointment \<Rightarrow> appointment" where
  "cancel a = a\<lparr>status := Cancelled\<rparr>"

section \<open>The hourly no-show sweep\<close>

text \<open>
  \<^verbatim>\<open>scheduler.js\<close>, lines 170-203. The query keeps the appointments that are scheduled
  or confirmed and whose \<^verbatim>\<open>date\<close> is before \<^verbatim>\<open>twoHoursAgo\<close>; the loop sets the hours
  and minutes of the date from \<^verbatim>\<open>time\<close> and compares again. \<^verbatim>\<open>save\<close> is taken to
  store the document. A time that does not parse gives an invalid date, and the
  comparison is false.
\<close>

definition twoHoursAgo :: "date \<Rightarrow> date" where
  "twoHoursAgo now = now - 2 * 60 * 60 * 1000"

definition appointmentTime :: "appointment \<Rightarrow> date option" where
  "appointmentTime a =
     (case map Number (split_colon (time a)) of
        Some hours # Some minutes # _ \<Rightarrow> Some (setHours (date a) hours minutes)
      | _ \<Rightarrow> None)"

definition overdue_query :: "date \<Rightarrow> appointment \<Rightarrow> bool" where
  "overdue_query now a =
     ((status a = Scheduled \<or> status a = Confirmed) \<and> date a < twoHoursAgo now)"

definition sweep_appointment :: "date \<Rightarrow> appointment \<Rightarrow> appointment" where
  "sweep_appointment now a =
     (if overdue_query now a \<and> js_less (appointmentTime a) (Some (twoHoursAgo now))
      then a\<lparr>status := NoShow\<rparr>
      else a)"

definition no_show_sweep :: "date \<Rightarrow> appointment list \<Rightarrow> appointment list" where
  "no_show_sweep now appointments = map (sweep_appointment now) appointments"

text \<open>The end of an appointment, start plus duration, as the specification words the
  condition of the sweep.\<close>

definition appointment_end :: "appointment \<Rightarrow> date" where
  "appointment_end a =
     start_of_day (date a) + (minutes_since_midnight (time a) + duration a) * ms_per_minute"

definition terminal :: "appointment_status \<Rightarrow> bool" where
  "terminal s = (s = Completed \<or> s = Cancelled \<or> s = NoShow)"

section \<open>Dose records and the adherence rate\<close>

datatype dose_status = Taken | Missed | Skipped | Delayed

record dose_record =
  medicationId :: nat
  dose_patientId :: nat
  scheduledTime :: "string option"
  takenAt :: date
  dose_status :: dose_status

record adherence =
  adherenceRate :: real
  totalDoses :: nat
  takenDoses :: nat
  missedDoses :: nat
  skippedDoses :: nat
  delayedDoses :: nat

text \<open>The \<^verbatim>\<open>$match\<close> stage of \<^verbatim>\<open>getAdherenceRate\<close> (\<^verbatim>\<open>MedicationHistory.js\<close>, lines
  88-101).\<close>

definition adherence_match :: "date \<Rightarrow> nat \<Rightarrow> nat option \<Rightarrow> int \<Rightarrow> dose_record \<Rightarrow> bool" where
  "adherence_match now patient medication days r =
     (let dateFrom = add_days now (- days)
      in dose_patientId r = patient \<and> dateFrom \<le> takenAt r \<and>
         (case medication of None \<Rightarrow> True | Some m \<Rightarrow> medicationId r = m))"

text \<open>The \<^verbatim>\<open>$sum\<close> of \<^verbatim>\<open>$cond: [{ $eq: ['$status', s] }, 1, 0]\<close>.\<close>

definition count_status :: "dose_status \<Rightarrow> dose_record list \<Rightarrow> nat" where
  "count_status s rs = length (filter (\<lambda>r. dose_status r = s) rs)"

text \<open>\<^verbatim>\<open>getAdherenceRate\<close>. The \<^verbatim>\<open>$group\<close> stage gives no document when nothing
  matches. The rate is a JavaScript number; the model computes it in the reals.\<close>

definition getAdherenceRate ::
  "dose_record list \<Rightarrow> date \<Rightarrow> nat \<Rightarrow> nat option \<Rightarrow> int \<Rightarrow> adherence" where
  "getAdherenceRate records now patient medication days =
     (let stats = filter (adherence_match now patient medication days) records
      in if stats = [] then
           \<lparr>adherenceRate = 0, totalDoses = 0, takenDoses = 0, missedDoses = 0,
            skippedDoses = 0, delayedDoses = 0\<rparr>
         else
           (let total = length stats; taken = count_status Taken stats
            in \<lparr>adherenceRate = (if total > 0 then (real taken / real total) * 100 else 0),
                totalDoses = total, takenDoses = taken,
                missedDoses = count_status Missed stats,
                skippedDoses = count_status Skipped stats,
                delayedDoses = count_status Delayed stats\<rparr>))"

section \<open>The medication reminder pass\<close>

text \<open>
  \<^verbatim>\<open>scheduler.js\<close>, lines 28-128: the callback that runs every five minutes. A
  medication document carries its populated patient; \<^verbatim>\<open>populate\<close> leaves \<^verbatim>\<open>null\<close>
  there when the user document no longer exists.
\<close>

record patient =
  user_id :: nat
  telegramId :: "string option"

record medication =
  medication_id :: nat
  patientId :: "patient option"
  timesPerDay :: "string list"
  startDate :: date
  endDate :: date
  isActive :: bool
  lastReminded :: "date option"

datatype js_error = TypeError | ReferenceError

text \<open>What the callback writes to the console: line 73, line 112, lines 118 and 122,
  and line 126.\<close>

datatype console_line =
    ReminderSent nat
  | MissedDoseLogged nat string
  | SentSummary nat
  | MissedSummary nat
  | CronError js_error

text \<open>The variables of one pass: the two collections, the two counters and the console.\<close>

record pass_state =
  history :: "dose_record list"
  remindersSent :: nat
  missedDosesLogged :: nat
  console :: "console_line list"

text \<open>\<^verbatim>\<open>sendMedicationReminder(telegramId, medication)\<close> (\<^verbatim>\<open>bot.js\<close>, lines 20-35) returns
  \<^verbatim>\<open>false\<close> when there is no bot or the message cannot be sent, and never throws. Whether
  the message goes out is the environment's choice: a parameter of the pass.\<close>

type_synonym dispatcher = "string \<Rightarrow> medication \<Rightarrow> bool"

text \<open>\<^verbatim>\<open>Medication.findMedicationsForReminders\<close>.\<close>

definition findMedicationsForReminders :: "date \<Rightarrow> medication \<Rightarrow> bool" where
  "findMedicationsForReminders now m =
     (let today = start_of_day now
      in isActive m \<and> startDate m \<le> today \<and> endDate m \<ge> today)"

text \<open>\<^verbatim>\<open>!medication.patientId.telegramId\<close>: \<^verbatim>\<open>null\<close> and the empty string are falsy.\<close>

definition no_telegram :: "patient \<Rightarrow> bool" where
  "no_telegram p = (case telegramId p of None \<Rightarrow> True | Some s \<Rightarrow> s = [])"

text \<open>Lines 58-76. The result is the document, as saved, and whether a reminder went
  out.\<close>

definition remind :: "dispatcher \<Rightarrow> date \<Rightarrow> string \<Rightarrow> string \<Rightarrow> medication \<Rightarrow> medication \<times> bool" where
  "remind send now currentTime chat m =
     (if shouldRemind (timesPerDay m) currentTime then
        (let today = now
         in if (case lastReminded m of None \<Rightarrow> True | Some l \<Rightarrow> \<not> same_day l today) then
              (if send chat m then (m\<lparr>lastReminded := Some now\<rparr>, True) else (m, False))
            else (m, False))
      else (m, False))"

text \<open>Lines 79-87: the times that are exactly 30 minutes past.\<close>

definition missedTimes :: "string list \<Rightarrow> string \<Rightarrow> string list" where
  "missedTimes scheduledTimes currentTime =
     filter (\<lambda>scheduledTime.
        case (time_minutes scheduledTime, time_minutes currentTime) of
          (Some schedMinutes, Some currMinutes) \<Rightarrow> currMinutes - schedMinutes = 30
        | _ \<Rightarrow> False) scheduledTimes"

text \<open>The query of lines 91-98: a record of this medication and scheduled time whose
  \<^verbatim>\<open>takenAt\<close> lies in the day of \<^verbatim>\<open>today\<close>.\<close>

definition existingHistory :: "date \<Rightarrow> nat \<Rightarrow> string \<Rightarrow> dose_record list \<Rightarrow> dose_record option" where
  "existingHistory today med missedTime records =
     find (\<lambda>r. medicationId r = med \<and> scheduledTime r = Some missedTime \<and>
                start_of_day today \<le> takenAt r \<and> takenAt r < add_days (start_of_day today) 1)
          records"

text \<open>
  Lines 89-114, the loop over the missed times. Its first argument is what the name
  \<^verbatim>\<open>today\<close> is bound to where line 95 reads it; an unbound name throws a
  \<^verbatim>\<open>ReferenceError\<close> as soon as the query object is built.
\<close>

fun log_missed_doses ::
  "date option \<Rightarrow> date \<Rightarrow> nat \<Rightarrow> nat \<Rightarrow> string list \<Rightarrow> pass_state \<Rightarrow> pass_state \<times> js_error option" where
  "log_missed_doses today_binding now med pat [] st = (st, None)"
| "log_missed_doses today_binding now med pat (missedTime # rest) st =
     (case today_binding of
        None \<Rightarrow> (st, Some ReferenceError)
      | Some today \<Rightarrow>
          (case existingHistory today med missedTime (history st) of
             Some r \<Rightarrow> log_missed_doses today_binding now med pat rest st
           | None \<Rightarrow>
               log_missed_doses today_binding now med pat rest
                 (st\<lparr>history := history st @
                        [\<lparr>medicationId = med, dose_patientId = pat,
                          scheduledTime = Some missedTime, takenAt = now, dose_status = Missed\<rparr>],
                     missedDosesLogged := missedDosesLogged st + 1,
                     console := console st @ [MissedDoseLogged med missedTime]\<rparr>)))"

text \<open>
  The body of the loop over the medications, lines 43-114. \<^verbatim>\<open>const today\<close> of line 60 is
  declared inside the block of \<^verbatim>\<open>if (shouldRemind)\<close>, which ends at line 76, and no other
  \<^verbatim>\<open>today\<close> is in scope in this callback: at line 95 the name is unbound.
\<close>

definition process_medication ::
  "dispatcher \<Rightarrow> date \<Rightarrow> string \<Rightarrow> medication \<Rightarrow> pass_state \<Rightarrow>
     (medication \<times> pass_state) \<times> js_error option" where
  "process_medication send now currentTime m st =
     (case patientId m of
        None \<Rightarrow> ((m, st), Some TypeError)
      | Some p \<Rightarrow>
          if no_telegram p then ((m, st), None)
          else
            (let (m', sent) = remind send now currentTime (the (telegramId p)) m;
                 st1 = (if sent
                        then st\<lparr>remindersSent := remindersSent st + 1,
                                console := console st @ [ReminderSent (medication_id m)]\<rparr>
                        else st);
                 (st2, err) = log_missed_doses None now (medication_id m) (user_id p)
                                (missedTimes (timesPerDay m) currentTime) st1
             in ((m', st2), err)))"

text \<open>
  The loop of line 42 over the Medication collection, in its stored order. A document
  outside the query is passed over; a saved document takes its place in the
  collection; a thrown error leaves the loop, and the documents behind it stay as they
  are. \<^verbatim>\<open>save\<close>, \<^verbatim>\<open>findOne\<close> and \<^verbatim>\<open>create\<close> are taken to succeed.
\<close>

fun reminder_loop ::
  "dispatcher \<Rightarrow> date \<Rightarrow> string \<Rightarrow> medication list \<Rightarrow> pass_state \<Rightarrow>
     medication list \<times> pass_state \<times> js_error option" where
  "reminder_loop send now currentTime [] st = ([], st, None)"
| "reminder_loop send now currentTime (m # ms) st =
     (if \<not> findMedicationsForReminders now m then
        (case reminder_loop send now currentTime ms st of
           (ms', st', err) \<Rightarrow> (m # ms', st', err))
      else
        (case process_medication send now currentTime m st of
           ((m', st1), Some e) \<Rightarrow> (m' # ms, st1, Some e)
         | ((m', st1), None) \<Rightarrow>
             (case reminder_loop send now currentTime ms st1 of
                (ms', st', err) \<Rightarrow> (m' # ms', st', err))))"

text \<open>What persists between passes.\<close>

record scheduler_state =
  medications :: "medication list"
  dose_history :: "dose_record list"
  printed :: "console_line list"

text \<open>The whole callback, with its single \<^verbatim>\<open>try\<close> / \<^verbatim>\<open>catch\<close> (lines 29 and 125).\<close>

definition medication_reminder_pass :: "dispatcher \<Rightarrow> date \<Rightarrow> scheduler_state \<Rightarrow> scheduler_state" where
  "medication_reminder_pass send now s =
     (let currentTime = format_HHmm (minute_of_day now);
          st0 = \<lparr>history = dose_history s, remindersSent = 0, missedDosesLogged = 0,
                 console = printed s\<rparr>
      in case reminder_loop send now currentTime (medications s) st0 of
           (ms, st, Some e) \<Rightarrow>
             \<lparr>medications = ms, dose_history = history st,
              printed = console st @ [CronError e]\<rparr>
         | (ms, st, None) \<Rightarrow>
             \<lparr>medications = ms, dose_history = history st,
              printed = console st @
                (if remindersSent st > 0 then [SentSummary (remindersSent st)] else []) @
                (if missedDosesLogged st > 0 then [MissedSummary (missedDosesLogged st)] else [])\<rparr>)"

text \<open>A run of passes, each with its own instant and its own luck with the dispatcher.\<close>

fun run_passes :: "(dispatcher \<times> date) list \<Rightarrow> scheduler_state \<Rightarrow> scheduler_state" where
  "run_passes [] s = s"
| "run_passes ((send, now) # rest) s = run_passes rest (medication_reminder_pass send now s)"

text \<open>The reminders that went out for a medication, as the console shows them.\<close>

definition reminders_for :: "nat \<Rightarrow> console_line list \<Rightarrow> nat" where
  "reminders_for med ls = count_list ls (ReminderSent med)"

section \<open>The registry of per-medication timers\<close>

text \<open>
  \<^verbatim>\<open>scheduleMedicationReminders\<close> and \<^verbatim>\<open>cancelMedicationReminders\<close> of the Telegram
  service (\<^verbatim>\<open>src/utils/email.js\<close>, lines 466-540). The service keeps the map
  \<^verbatim>\<open>activeReminders\<close>; the cron library keeps the tasks it was asked to run. A task is
  created by \<^verbatim>\<open>cron.schedule\<close>, which belongs to the library: whether it accepts the
  expression built from \<^verbatim>\<open>minutes\<close> and \<^verbatim>\<open>hours\<close>, or throws, is a parameter.
\<close>

record cron_job =
  job_number :: nat
  job_minutes :: "int option"
  job_hours :: "int option"
  job_medication :: nat

record reminder =
  reminder_userId :: nat
  reminder_medicationId :: nat
  chatId :: "string option"
  timers :: "cron_job list"

record telegram_service =
  activeReminders :: "nat \<rightharpoonup> reminder"
  running :: "cron_job list"
  created :: nat

record prescription =
  prescription_id :: nat
  specificTimes :: "string list option"

type_synonym cron_accepts = "int option \<Rightarrow> int option \<Rightarrow> bool"

text \<open>\<^verbatim>\<open>const [hours, minutes] = time.split(':').map(Number)\<close>.\<close>

definition hours_minutes :: "string \<Rightarrow> int option \<times> int option" where
  "hours_minutes t =
     (case map Number (split_colon t) of
        [] \<Rightarrow> (None, None)
      | [h] \<Rightarrow> (h, None)
      | h # m # _ \<Rightarrow> (h, m))"

definition cancelMedicationReminders :: "nat \<Rightarrow> telegram_service \<Rightarrow> telegram_service" where
  "cancelMedicationReminders med s =
     (case activeReminders s med of
        None \<Rightarrow> s
      | Some r \<Rightarrow>
          s\<lparr>running := filter (\<lambda>j. j \<notin> set (timers r)) (running s),
            activeReminders := (activeReminders s)(med := None)\<rparr>)"

text \<open>The loop of lines 486-522. A throw of \<^verbatim>\<open>cron.schedule\<close> leaves the loop and the
  function; the result names the time at which it happened.\<close>

fun schedule_times ::
  "cron_accepts \<Rightarrow> nat \<Rightarrow> string list \<Rightarrow> reminder \<Rightarrow> telegram_service \<Rightarrow>
     (reminder \<times> telegram_service) \<times> string option" where
  "schedule_times accepts med [] r s = ((r, s), None)"
| "schedule_times accepts med (t # ts) r s =
     (case hours_minutes t of
        (hours, minutes) \<Rightarrow>
          if \<not> accepts minutes hours then ((r, s), Some t)
          else
            (let job = \<lparr>job_number = created s, job_minutes = minutes, job_hours = hours,
                        job_medication = med\<rparr>
             in schedule_times accepts med ts
                  (r\<lparr>timers := timers r @ [job]\<rparr>)
                  (s\<lparr>running := running s @ [job], created := created s + 1\<rparr>)))"

text \<open>\<^verbatim>\<open>scheduleMedicationReminders(medication, user)\<close>. The second component is the
  time whose trigger could not be created, when the call ends by that exception.\<close>

definition scheduleMedicationReminders ::
  "cron_accepts \<Rightarrow> prescription \<Rightarrow> patient \<Rightarrow> telegram_service \<Rightarrow>
     telegram_service \<times> string option" where
  "scheduleMedicationReminders accepts medication user s =
     (case specificTimes medication of
        None \<Rightarrow> (s, None)
      | Some ts \<Rightarrow>
          (let s1 = cancelMedicationReminders (prescription_id medication) s;
               r0 = \<lparr>reminder_userId = user_id user,
                     reminder_medicationId = prescription_id medication,
                     chatId = telegramId user, timers = []\<rparr>
           in case schedule_times accepts (prescription_id medication) ts r0 s1 of
                ((r, s2), Some t) \<Rightarrow> (s2, Some t)
              | ((r, s2), None) \<Rightarrow>
                  (s2\<lparr>activeReminders := (activeReminders s2)(prescription_id medication \<mapsto> r)\<rparr>,
                   None)))"

text \<open>The times of day for which a task of a medication is running.\<close>

definition running_times :: "nat \<Rightarrow> telegram_service \<Rightarrow> (int option \<times> int option) list" where
  "running_times med s =
     map (\<lambda>j. (job_hours j, job_minutes j)) (filter (\<lambda>j. job_medication j = med) (running s))"

text \<open>What the node-cron library accepts in the minute and hour fields: numbers in
  range. It stands for the parameter in the examples.\<close>

definition in_cron_range :: cron_accepts where
  "in_cron_range minutes hours =
     (case (minutes, hours) of
        (Some m, Some h) \<Rightarrow> 0 \<le> m \<and> m \<le> 59 \<and> 0 \<le> h \<and> h \<le> 23
      | _ \<Rightarrow> False)"

section \<open>The time-window matcher\<close>

lemma is_digit_not_colon: "is_digit c \<Longrightarrow> c \<noteq> CHR '':''"
  by (auto simp: is_digit_def)

lemma split_colon_H_MM:
  assumes "is_digit h" "is_digit m1" "is_digit m2"
  shows "split_colon [h, CHR '':'', m1, m2] = [[h], [m1, m2]]"
  using assms by (simp add: is_digit_not_colon)

lemma split_colon_HH_MM:
  assumes "is_digit h1" "is_digit h2" "is_digit m1" "is_digit m2"
  shows "split_colon [h1, h2, CHR '':'', m1, m2] = [[h1, h2], [m1, m2]]"
  using assms by (simp add: is_digit_not_colon)

lemma Number_one_digit: "is_digit a \<Longrightarrow> Number [a] = Some (int (digit_value a))"
  by (simp add: Number_def)

lemma Number_two_digits:
  "is_digit a \<Longrightarrow> is_digit b \<Longrightarrow> Number [a, b] = Some (int (10 * digit_value a + digit_value b))"
  by (simp add: Number_def)

lemma is_digit_2: "is_digit (CHR ''2'')"
  by (simp add: is_digit_def)

text \<open>On a validated string the code's conversion is the specification's.\<close>

lemma time_minutes_valid:
  assumes "valid_time t"
  shows "time_minutes t = Some (minutes_since_midnight t)"
proof -
  from assms consider
    (short) h m1 m2 where "t = [h, CHR '':'', m1, m2]" "is_digit h" "is_digit m1" "is_digit m2"
  | (long) h1 h2 m1 m2 where "t = [h1, h2, CHR '':'', m1, m2]"
      "is_digit h1" "is_digit h2" "is_digit m1" "is_digit m2"
    by (induction t rule: valid_time.induct) (auto simp: is_digit_2)
  then show ?thesis
  proof cases
    case short
    then show ?thesis
      by (simp add: time_minutes_def split_colon_H_MM Number_one_digit Number_two_digits
          del: split_colon.simps)
  next
    case long
    then show ?thesis
      by (simp add: time_minutes_def split_colon_HH_MM Number_one_digit Number_two_digits
          del: split_colon.simps)
  qed
qed

lemma digit_value_less_10: "is_digit c \<Longrightarrow> digit_value c < 10"
  by (auto simp: is_digit_def digit_value_def)

lemma minutes_since_midnight_range:
  assumes "valid_time t"
  shows "0 \<le> minutes_since_midnight t \<and> minutes_since_midnight t < 1440"
  using assms
proof (induction t rule: valid_time.induct)
  case (1 h c m1 m2)
  then have "digit_value h < 10" "digit_value m1 \<le> 5" "digit_value m2 < 10"
    by (auto dest: digit_value_less_10)
  then show ?case by simp
next
  case (2 h1 h2 c m1 m2)
  then have m: "digit_value m1 \<le> 5" "digit_value m2 < 10"
    by (auto dest: digit_value_less_10)
  from 2 consider
    (low) "digit_value h1 \<le> 1" "is_digit h2"
  | (high) "h1 = CHR ''2''" "digit_value h2 \<le> 3"
    by auto
  then have "10 * digit_value h1 + digit_value h2 \<le> 23"
  proof cases
    case low
    then have "digit_value h2 < 10" by (auto dest: digit_value_less_10)
    with low show ?thesis by simp
  next
    case high
    then show ?thesis by (simp add: digit_value_def)
  qed
  with m show ?case by simp
qed simp_all

lemma digit_char_digit:
  assumes "d < 10"
  shows "is_digit (digit_char d) \<and> digit_value (digit_char d) = d"
proof -
  from assms have "d \<in> {0, 1, 2, 3, 4, 5, 6, 7, 8, 9}" by auto
  then show ?thesis
    by (auto simp: digit_char_def is_digit_def digit_value_def)
qed

lemma hour_of_minute_less: "n < 1440 \<Longrightarrow> n div 60 < (24::nat)" by simp
lemma hour_digits_less: "(h::nat) < 24 \<Longrightarrow> h div 10 < 10 \<and> h mod 10 < 10" by simp
lemma minute_digits_less: "(n::nat) mod 60 div 10 \<le> 5 \<and> n mod 60 mod 10 < 10 \<and> n mod 60 div 10 < 10"
proof -
  have "n mod 60 < 60" by simp
  then show ?thesis by linarith
qed
lemma hour_tens_cases: "(h::nat) < 24 \<Longrightarrow> h div 10 \<le> 1 \<or> (h div 10 = 2 \<and> h mod 10 \<le> 3)"
  by presburger

lemma digit_char_2: "digit_char 2 = CHR ''2''" by (simp add: digit_char_def)

lemma valid_time_format_HHmm:
  assumes "n < 1440"
  shows "valid_time (format_HHmm n)"
proof -
  define h where "h = n div 60"
  define m where "m = n mod 60"
  have h: "h < 24" using assms by (simp add: h_def)
  have hd: "h div 10 < 10" "h mod 10 < 10" using hour_digits_less [OF h] by simp_all
  have md: "m div 10 \<le> 5" "m mod 10 < 10" "m div 10 < 10"
    using minute_digits_less [of n] by (simp_all add: m_def)
  from hour_tens_cases [OF h] consider "h div 10 \<le> 1" | "h div 10 = 2" "h mod 10 \<le> 3"
    by blast
  then have "valid_time [digit_char (h div 10), digit_char (h mod 10), CHR '':'',
      digit_char (m div 10), digit_char (m mod 10)]"
  proof cases
    case 1
    with hd md show ?thesis by (simp add: digit_char_digit)
  next
    case 2
    with hd md show ?thesis by (simp add: digit_char_digit digit_char_2)
  qed
  then show ?thesis by (simp add: format_HHmm_def h_def m_def)
qed

lemma minutes_since_midnight_format_HHmm:
  assumes "n < 1440"
  shows "minutes_since_midnight (format_HHmm n) = int n"
proof -
  define h where "h = n div 60"
  define m where "m = n mod 60"
  have h: "h < 24" using assms by (simp add: h_def)
  have hd: "h div 10 < 10" "h mod 10 < 10" using hour_digits_less [OF h] by simp_all
  have md: "m div 10 < 10" "m mod 10 < 10"
    using minute_digits_less [of n] by (simp_all add: m_def)
  have "minutes_since_midnight [digit_char (h div 10), digit_char (h mod 10), CHR '':'',
      digit_char (m div 10), digit_char (m mod 10)] =
      int (60 * (10 * (h div 10) + h mod 10) + (10 * (m div 10) + m mod 10))"
    using hd md by (simp add: digit_char_digit)
  also have "\<dots> = int (60 * h + m)" by simp
  also have "\<dots> = int n" by (simp add: h_def m_def)
  finally show ?thesis by (simp add: format_HHmm_def h_def m_def)
qed

text \<open>
  Claim C3. For validated times \<open>t\<close> and \<open>now\<close> and any tolerance, the matcher holds
  exactly when the two times, in minutes since midnight, differ by at most the
  tolerance; the reminder pass uses it with tolerance 2. A difference of exactly the
  tolerance matches, a difference of the tolerance plus one does not.
\<close>

theorem matcher_iff_within_tolerance:
  assumes "valid_time t" and "valid_time now"
  shows "(time_window_matches tolerance t now \<longleftrightarrow>
            \<bar>minutes_since_midnight t - minutes_since_midnight now\<bar> \<le> tolerance) \<and>
         (shouldRemind [t] now \<longleftrightarrow>
            \<bar>minutes_since_midnight t - minutes_since_midnight now\<bar> \<le> 2) \<and>
         (\<bar>minutes_since_midnight t - minutes_since_midnight now\<bar> = tolerance \<longrightarrow>
            time_window_matches tolerance t now) \<and>
         (\<bar>minutes_since_midnight t - minutes_since_midnight now\<bar> = tolerance + 1 \<longrightarrow>
            \<not> time_window_matches tolerance t now)"
  using assms by (simp add: time_window_matches_def shouldRemind_def time_minutes_valid)

lemma shouldRemind_iff:
  assumes "list_all valid_time ts" and "valid_time now"
  shows "shouldRemind ts now \<longleftrightarrow>
         (\<exists>t \<in> set ts. \<bar>minutes_since_midnight t - minutes_since_midnight now\<bar> \<le> 2)"
  using assms
  by (auto simp: shouldRemind_def list_ex_iff list_all_iff time_window_matches_def time_minutes_valid)

theorem matcher_iff_within_tolerance_witness:
  "valid_time ''08:00'' \<and> valid_time ''08:02'' \<and> valid_time ''08:03'' \<and>
   minutes_since_midnight ''08:00'' = 480 \<and> minutes_since_midnight ''08:02'' = 482 \<and>
   minutes_since_midnight ''08:03'' = 483 \<and>
   time_window_matches 2 ''08:00'' ''08:02'' \<and> shouldRemind [''08:00''] ''08:02'' \<and>
   \<not> time_window_matches 2 ''08:00'' ''08:03'' \<and> \<not> shouldRemind [''08:00''] ''08:03''"
proof -
  have v: "valid_time ''08:00''" "valid_time ''08:02''" "valid_time ''08:03''"
    by (simp_all add: is_digit_def digit_value_def)
  have m: "minutes_since_midnight ''08:00'' = 480" "minutes_since_midnight ''08:02'' = 482"
    "minutes_since_midnight ''08:03'' = 483"
    by (simp_all add: digit_value_def)
  from matcher_iff_within_tolerance [OF v(1) v(2), of 2]
    matcher_iff_within_tolerance [OF v(1) v(3), of 2] v m
  show ?thesis by simp
qed

lemma time_minutes_format_HHmm:
  "n < 1440 \<Longrightarrow> time_minutes (format_HHmm n) = Some (int n)"
  by (simp add: time_minutes_valid valid_time_format_HHmm minutes_since_midnight_format_HHmm)

lemma time_minutes_2358: "time_minutes ''23:58'' = Some 1438"
  by (simp add: time_minutes_def Number_def is_digit_def digit_value_def)

lemma time_minutes_2359: "time_minutes ''23:59'' = Some 1439"
  by (simp add: time_minutes_def Number_def is_digit_def digit_value_def)

lemma time_minutes_0000: "time_minutes ''00:00'' = Some 0"
  by (simp add: time_minutes_def Number_def is_digit_def digit_value_def)

text \<open>
  Claim C10. The matcher takes the plain absolute difference of the minutes since
  midnight: for 23:59 against 00:00 the difference is 1439 and nothing matches, with
  tolerance 2 and with the 5 of \<^verbatim>\<open>shouldTakeAtTime\<close>. A time of 23:58 or 23:59 is
  matched by no tick whose minute of the day is a multiple of five.
\<close>

theorem matcher_no_midnight_wraparound:
  "time_minutes ''23:59'' = Some 1439 \<and> time_minutes ''00:00'' = Some 0 \<and>
   \<not> time_window_matches 2 ''23:59'' ''00:00'' \<and>
   \<not> shouldRemind [''23:59''] ''00:00'' \<and>
   \<not> shouldTakeAtTime [''23:59''] ''00:00'' \<and>
   (\<forall>n. n < 1440 \<and> n mod 5 = 0 \<longrightarrow>
      \<not> shouldRemind [''23:58''] (format_HHmm n) \<and>
      \<not> shouldRemind [''23:59''] (format_HHmm n))"
proof -
  have grid: "\<not> shouldRemind [''23:58''] (format_HHmm n) \<and>
              \<not> shouldRemind [''23:59''] (format_HHmm n)"
    if "n < 1440" "n mod 5 = 0" for n
  proof -
    from that have "\<not> \<bar>1438 - int n\<bar> \<le> 2" "\<not> \<bar>1439 - int n\<bar> \<le> 2"
      by presburger+
    with that(1) show ?thesis
      by (simp add: shouldRemind_def time_window_matches_def time_minutes_format_HHmm
          time_minutes_2358 time_minutes_2359)
  qed
  have "\<not> time_window_matches 2 ''23:59'' ''00:00''"
    "\<not> shouldRemind [''23:59''] ''00:00''" "\<not> shouldTakeAtTime [''23:59''] ''00:00''"
    by (simp_all add: shouldRemind_def shouldTakeAtTime_def time_window_matches_def
        time_minutes_2359 time_minutes_0000)
  with grid show ?thesis
    by (simp add: time_minutes_2359 time_minutes_0000)
qed

theorem matcher_no_midnight_wraparound_witness:
  "(1435::nat) < 1440 \<and> (1435::nat) mod 5 = 0 \<and> format_HHmm 1435 = ''23:55'' \<and>
   \<not> shouldRemind [''23:58''] ''23:55'' \<and> \<not> shouldRemind [''23:59''] ''23:55'' \<and>
   format_HHmm 0 = ''00:00'' \<and>
   \<not> shouldRemind [''23:58''] ''00:00'' \<and> \<not> shouldRemind [''23:59''] ''00:00''"
proof -
  have f: "format_HHmm 1435 = ''23:55''" "format_HHmm 0 = ''00:00''"
    by (simp_all add: format_HHmm_def digit_char_def)
  from matcher_no_midnight_wraparound have
    "\<And>n. n < 1440 \<and> n mod 5 = 0 \<longrightarrow>
      \<not> shouldRemind [''23:58''] (format_HHmm n) \<and> \<not> shouldRemind [''23:59''] (format_HHmm n)"
    by simp
  from this [of 1435] this [of 0] f show ?thesis by simp
qed

end
